theory Spec2Isabelle
  imports Main "HOL-Library.Sublist"
begin

section \<open>Plans\<close>

text \<open>
  The three services \<open>purchaseService\<close>, the legacy \<open>authService\<close> and the
  provider-delegating \<open>authService\<close> each carry a copy of \<open>getPlanDetails\<close>; the
  three copies are the same text, character for character, so one definition embeds
  all of them.

  A plan is the object literal stored under a key of the table \<open>plans\<close>.
\<close>

record plan =
  name :: string
  price :: int
  period :: string
  features :: "string list"

definition kickstarter :: plan where
  "kickstarter = \<lparr> name = ''Kickstarter'', price = 0, period = ''month'',
     features = [''Risk management plan for 1 month'',
                 ''Trading signals for 1 week'',
                 ''Standard risk management calculator'',
                 ''Phase tracking dashboard'',
                 ''3 prop firm rule analyzer''] \<rparr>"

definition starter :: plan where
  "starter = \<lparr> name = ''Starter'', price = 99, period = ''month'',
     features = [''Risk management plan for 1 month'',
                 ''Trading signals for 1 month'',
                 ''Standard risk management calculator'',
                 ''Phase tracking dashboard'',
                 ''5 prop firm rule analyzer'',
                 ''Email support'',
                 ''Auto lot size calculator''] \<rparr>"

definition pro :: plan where
  "pro = \<lparr> name = ''Pro'', price = 199, period = ''month'',
     features = [''Risk management plan for 1 month'',
                 ''Trading signals for 1 month'',
                 ''Standard risk management calculator'',
                 ''Phase tracking dashboard'',
                 ''15 prop firm rule analyzer'',
                 ''Priority chat and email support'',
                 ''Auto lot size calculator'',
                 ''Access to private community'',
                 ''Multi account tracker'',
                 ''Advanced trading journal'',
                 ''Backtesting tools''] \<rparr>"

definition enterprise :: plan where
  "enterprise = \<lparr> name = ''Enterprise'', price = 499, period = ''3 months'',
     features = [''Risk management plan for 3 months'',
                 ''Trading signals for 3 months'',
                 ''Standard risk management calculator'',
                 ''Phase tracking dashboard'',
                 ''15 prop firm rule analyzer'',
                 ''24/7 priority support'',
                 ''Auto lot size calculator'',
                 ''Access to private community'',
                 ''Multi account tracker'',
                 ''Advanced trading journal'',
                 ''Professional backtesting suite'',
                 ''Chart analysis tools''] \<rparr>"

text \<open>The own properties of the object literal \<open>plans\<close>, in the order of the source.\<close>

definition plans :: "(string \<times> plan) list" where
  "plans = [(''kickstarter'', kickstarter), (''starter'', starter),
            (''pro'', pro), (''enterprise'', enterprise)]"

text \<open>
  \<open>plans\<close> is an ordinary object, so the property read \<open>plans[planType]\<close> continues
  along the prototype chain when \<open>planType\<close> is not an own property: the members of
  \<open>Object.prototype\<close> are found there. Eleven of them are functions; \<open>__proto__\<close> is
  an accessor that yields the prototype object itself. Every other key reads as
  \<open>undefined\<close>.
\<close>

datatype property_value =
    PlanObject plan
  | BuiltinFunction string
  | PrototypeObject

definition object_prototype_functions :: "string list" where
  "object_prototype_functions =
     [''constructor'', ''hasOwnProperty'', ''isPrototypeOf'', ''propertyIsEnumerable'',
      ''toLocaleString'', ''toString'', ''valueOf'', ''__defineGetter__'',
      ''__defineSetter__'', ''__lookupGetter__'', ''__lookupSetter__'']"

definition plans_get :: "string \<Rightarrow> property_value option" where
  "plans_get planType =
     (case map_of plans planType of
        Some p \<Rightarrow> Some (PlanObject p)
      | None \<Rightarrow>
          if planType = ''__proto__'' then Some PrototypeObject
          else if planType \<in> set object_prototype_functions
               then Some (BuiltinFunction planType)
          else None)"

text \<open>
  \<open>return plans[planType] || plans.starter\<close>: objects and functions are truthy, so
  the right operand is taken only when the read gave \<open>undefined\<close>.
\<close>

definition getPlanDetails :: "string \<Rightarrow> property_value" where
  "getPlanDetails planType =
     (case plans_get planType of
        Some v \<Rightarrow> v
      | None \<Rightarrow> PlanObject starter)"

text \<open>
  What \<open>signUp\<close> reads from the value \<open>getPlanDetails\<close> returned. A plan object has
  the four properties; a built-in function has a \<open>name\<close> (the constructor of an
  object literal is the function \<open>Object\<close>, the other members are named after their
  key) and none of the others; the prototype object has none of the four. \<open>None\<close>
  stands for \<open>undefined\<close>.
\<close>

fun planDetails_name :: "property_value \<Rightarrow> string option" where
  "planDetails_name (PlanObject p) = Some (name p)"
| "planDetails_name (BuiltinFunction f) =
     Some (if f = ''constructor'' then ''Object'' else f)"
| "planDetails_name PrototypeObject = None"

fun planDetails_price :: "property_value \<Rightarrow> int option" where
  "planDetails_price (PlanObject p) = Some (price p)"
| "planDetails_price (BuiltinFunction f) = None"
| "planDetails_price PrototypeObject = None"

fun planDetails_period :: "property_value \<Rightarrow> string option" where
  "planDetails_period (PlanObject p) = Some (period p)"
| "planDetails_period (BuiltinFunction f) = None"
| "planDetails_period PrototypeObject = None"

fun planDetails_features :: "property_value \<Rightarrow> string list option" where
  "planDetails_features (PlanObject p) = Some (features p)"
| "planDetails_features (BuiltinFunction f) = None"
| "planDetails_features PrototypeObject = None"

section \<open>The database\<close>

text \<open>
  The services talk to a PostgreSQL database through a client library. The model is
  the database the migration creates: one list of rows for each table the services
  below touch, and the constraints of the schema checked at each insert. Identifiers
  are the text of a uuid, instants are milliseconds since the epoch (what \<open>Date\<close>
  holds and \<open>toISOString\<close> writes), amounts and prices are whole numbers as in the
  plan table.

  Columns that the database fills by itself and no service reads (\<open>created_at\<close>,
  \<open>updated_at\<close>, the \<open>id\<close> of a profile, subscription, access or notification row)
  are left out, and so is the payload of a signal that no service inspects. Row-level
  security is not part of the model: every statement runs as a role entitled to it.
  The engine fails a statement for a constraint of the schema or for text that does
  not read as a uuid. An identifier that the database or the provider hands out is
  a uuid in its canonical text; an identifier that a caller passes is any text, and
  the engine reads it as it reads input for a \<open>uuid\<close> column.
\<close>

type_synonym uuid = string
type_synonym timestamp = int

datatype role = User | Admin | CustomerService

datatype subscription_status = Pending | Active | Expired | Cancelled

datatype signal_type = Crypto | Forex | Stocks | Commodities

datatype signal_status = SignalActive | SignalClosed | SignalCancelled

datatype payment_method = Stripe | Paypal | CryptoPayment

datatype payment_status = PaymentPending | Completed | Failed | Refunded

datatype notification_type = Purchase | Signup | Support | System

datatype json = JString string | JNumber int

record user_row =
  u_id :: uuid
  u_email :: string
  u_password_hash :: string
  u_first_name :: string
  u_last_name :: string
  u_role :: role
  u_is_active :: "bool option"
  u_email_verified :: "bool option"

record profile_row =
  pr_user_id :: uuid
  pr_unique_id :: string
  pr_account_type :: string
  pr_risk_tolerance :: string
  pr_setup_complete :: bool
  pr_timezone :: string

record subscription_row =
  s_user_id :: uuid
  s_plan_type :: string
  s_plan_name :: string
  s_price :: int
  s_period :: string
  s_status :: subscription_status
  s_features :: "string list"
  s_started_at :: "timestamp option"
  s_expires_at :: "timestamp option"

record signal_row =
  sig_id :: uuid
  sig_signal_type :: signal_type
  sig_symbol :: string
  sig_status :: signal_status
  sig_created_at :: timestamp

record access_row =
  a_user_id :: uuid
  a_signal_id :: uuid
  a_viewed_at :: "timestamp option"

record purchase_row =
  p_id :: uuid
  p_user_id :: uuid
  p_plan_type :: string
  p_plan_name :: string
  p_amount :: int
  p_currency :: string
  p_payment_method :: payment_method
  p_payment_status :: payment_status
  p_transaction_id :: "string option"
  p_payment_details :: "(string \<times> json) list option"
  p_completed_at :: "timestamp option"

record notification_row =
  n_notification_type :: notification_type
  n_title :: string
  n_message :: string
  n_related_user_id :: "uuid option"
  n_related_purchase_id :: "uuid option"
  n_metadata :: "(string \<times> json) list"
  n_is_read :: bool

record db =
  users :: "user_row list"
  user_profiles :: "profile_row list"
  user_subscriptions :: "subscription_row list"
  trading_signals :: "signal_row list"
  user_signal_access :: "access_row list"
  purchases :: "purchase_row list"
  admin_notifications :: "notification_row list"

definition empty_db :: db where
  "empty_db = \<lparr> users = [], user_profiles = [], user_subscriptions = [],
     trading_signals = [], user_signal_access = [], purchases = [],
     admin_notifications = [] \<rparr>"

subsection \<open>Errors of the engine and of the client\<close>

datatype db_error =
    UniqueViolation string
  | ForeignKeyViolation string string
  | CheckViolation string string
  | NotNullViolation string string
  | InvalidUuid string
  | MultipleRows

text \<open>The \<open>message\<close> property of the error object the client hands back.\<close>

fun message_of :: "db_error \<Rightarrow> string" where
  \<open>message_of (UniqueViolation c) =
     ''duplicate key value violates unique constraint "'' @ c @ ''"''\<close>
| \<open>message_of (ForeignKeyViolation t c) =
     ''insert or update on table "'' @ t @ ''" violates foreign key constraint "''
       @ c @ ''"''\<close>
| \<open>message_of (CheckViolation t c) =
     ''new row for relation "'' @ t @ ''" violates check constraint "'' @ c @ ''"''\<close>
| \<open>message_of (NotNullViolation col t) =
     ''null value in column "'' @ col @ ''" of relation "'' @ t
       @ ''" violates not-null constraint''\<close>
| \<open>message_of (InvalidUuid input) =
     ''invalid input syntax for type uuid: "'' @ input @ ''"''\<close>
| \<open>message_of MultipleRows =
     ''JSON object requested, multiple (or no) rows returned''\<close>



text \<open>\<open>msg || fallback\<close> on strings: the empty string is falsy.\<close>

definition or_else :: "string \<Rightarrow> string \<Rightarrow> string" where
  "or_else msg fallback = (if msg = [] then fallback else msg)"

text \<open>\<open>haystack.includes(needle)\<close>.\<close>

fun str_includes :: "string \<Rightarrow> string \<Rightarrow> bool" where
  "str_includes [] needle = (needle = [])"
| "str_includes (c # cs) needle = (prefix needle (c # cs) \<or> str_includes cs needle)"

text \<open>Decimal text of a number, as \<open>toString\<close> and the engine's text output give it.\<close>

fun show_nat :: "nat \<Rightarrow> string" where
  "show_nat n = (if n < 10 then [''0123456789'' ! n]
                 else show_nat (n div 10) @ [''0123456789'' ! (n mod 10)])"

declare show_nat.simps [simp del]

definition show_int :: "int \<Rightarrow> string" where
  "show_int i = (if i < 0 then ''-'' @ show_nat (nat (- i)) else show_nat (nat i))"

text \<open>Text output of a \<open>decimal(10,2)\<close> holding a whole number.\<close>

definition numeric_text :: "int \<Rightarrow> string" where
  "numeric_text i = show_int i @ ''.00''"

subsection \<open>Reading a uuid\<close>

text \<open>
  The input function of the type \<open>uuid\<close>: sixteen bytes of two hexadecimal digits
  each, in either case, with an optional hyphen after every second byte but the
  last, the whole optionally in braces. The value is written back in lower case, in
  groups of 8, 4, 4, 4 and 12 digits; two texts denote the same uuid when they are
  written back alike.
\<close>

definition is_hex :: "char \<Rightarrow> bool" where
  "is_hex c = (c \<in> set ''0123456789abcdefABCDEF'')"

definition lower_hex :: "char \<Rightarrow> char" where
  "lower_hex c =
     (case map_of [(CHR ''A'', CHR ''a''), (CHR ''B'', CHR ''b''), (CHR ''C'', CHR ''c''),
                   (CHR ''D'', CHR ''d''), (CHR ''E'', CHR ''e''), (CHR ''F'', CHR ''f'')] c of
        Some l \<Rightarrow> l
      | None \<Rightarrow> c)"

definition hyphen_after :: "bool list" where
  "hyphen_after = [False, True, False, True, False, True, False, True,
                   False, True, False, True, False, True, False, False]"

fun read_bytes :: "bool list \<Rightarrow> string \<Rightarrow> (string \<times> string) option" where
  "read_bytes [] src = Some ([], src)"
| "read_bytes (h # hs) (a # b # src) =
     (if is_hex a \<and> is_hex b
      then (case read_bytes hs (if h \<and> take 1 src = ''-'' then drop 1 src else src) of
              None \<Rightarrow> None
            | Some (digits, rest) \<Rightarrow> Some (lower_hex a # lower_hex b # digits, rest))
      else None)"
| "read_bytes (h # hs) src = None"

definition uuid_out :: "string \<Rightarrow> uuid" where
  "uuid_out digits =
     take 8 digits @ ''-'' @ take 4 (drop 8 digits) @ ''-'' @ take 4 (drop 12 digits)
       @ ''-'' @ take 4 (drop 16 digits) @ ''-'' @ drop 20 digits"

definition uuid_in :: "string \<Rightarrow> uuid option" where
  "uuid_in source =
     (let braces = (take 1 source = ''{'');
          src = (if braces then drop 1 source else source)
      in case read_bytes hyphen_after src of
           None \<Rightarrow> None
         | Some (digits, rest) \<Rightarrow>
             if rest = (if braces then ''}'' else [])
             then Some (uuid_out digits)
             else None)"

subsection \<open>Statements\<close>

text \<open>
  An insert is checked as PostgreSQL checks it: not-null and check constraints of the
  new row, then the unique indexes, then the foreign keys. A refused insert leaves
  the database as it was. \<open>.insert(...).select().single()\<close> answers with the new row,
  \<open>.insert(...)\<close> alone with the error or nothing.
\<close>

definition insert_users :: "db \<Rightarrow> user_row \<Rightarrow> (db_error + user_row) \<times> db" where
  "insert_users d row =
     (if u_id row \<in> set (map u_id (users d))
        then (Inl (UniqueViolation ''users_pkey''), d)
      else if u_email row \<in> set (map u_email (users d))
        then (Inl (UniqueViolation ''users_email_key''), d)
      else (Inr row, d\<lparr>users := users d @ [row]\<rparr>))"

definition insert_user_profiles :: "db \<Rightarrow> profile_row \<Rightarrow> db_error option \<times> db" where
  "insert_user_profiles d row =
     (if pr_account_type row \<in> set [''personal'', ''professional'', ''enterprise'']
      then
        if pr_risk_tolerance row \<in> set [''conservative'', ''moderate'', ''aggressive'']
        then
          if pr_unique_id row \<in> set (map pr_unique_id (user_profiles d))
            then (Some (UniqueViolation ''user_profiles_unique_id_key''), d)
          else if pr_user_id row \<in> set (map u_id (users d))
            then (None, d\<lparr>user_profiles := user_profiles d @ [row]\<rparr>)
          else (Some (ForeignKeyViolation ''user_profiles''
                        ''user_profiles_user_id_fkey''), d)
        else (Some (CheckViolation ''user_profiles''
                      ''user_profiles_risk_tolerance_check''), d)
      else (Some (CheckViolation ''user_profiles''
                    ''user_profiles_account_type_check''), d))"

text \<open>
  The object \<open>signUp\<close> sends to \<open>user_subscriptions\<close>. A property that is \<open>undefined\<close>
  is dropped when the object is serialised, and the column takes its default:
  none for \<open>plan_name\<close> (which is \<open>NOT NULL\<close>), \<open>0\<close> for \<open>price\<close>, \<open>month\<close> for
  \<open>period\<close>, the empty array for \<open>features\<close>.
\<close>

record subscription_insert =
  i_user_id :: uuid
  i_plan_type :: string
  i_plan_name :: "string option"
  i_price :: "int option"
  i_period :: "string option"
  i_status :: subscription_status
  i_features :: "string list option"

definition plan_types :: "string list" where
  "plan_types = [''kickstarter'', ''starter'', ''pro'', ''enterprise'']"

definition insert_user_subscriptions ::
  "db \<Rightarrow> subscription_insert \<Rightarrow> db_error option \<times> db" where
  "insert_user_subscriptions d v =
     (case i_plan_name v of
        None \<Rightarrow> (Some (NotNullViolation ''plan_name'' ''user_subscriptions''), d)
      | Some plan_name \<Rightarrow>
          if i_plan_type v \<in> set plan_types
          then
            if i_user_id v \<in> set (map u_id (users d))
            then (None, d\<lparr>user_subscriptions := user_subscriptions d @
                   [\<lparr> s_user_id = i_user_id v,
                      s_plan_type = i_plan_type v,
                      s_plan_name = plan_name,
                      s_price = (case i_price v of None \<Rightarrow> 0 | Some x \<Rightarrow> x),
                      s_period = (case i_period v of None \<Rightarrow> ''month'' | Some x \<Rightarrow> x),
                      s_status = i_status v,
                      s_features = (case i_features v of None \<Rightarrow> [] | Some x \<Rightarrow> x),
                      s_started_at = None,
                      s_expires_at = None \<rparr>]\<rparr>)
            else (Some (ForeignKeyViolation ''user_subscriptions''
                          ''user_subscriptions_user_id_fkey''), d)
          else (Some (CheckViolation ''user_subscriptions''
                        ''user_subscriptions_plan_type_check''), d))"

text \<open>
  \<open>.update(...).eq('user_id', userId).eq('plan_type', planType)\<close> on
  \<open>user_subscriptions\<close>: a \<open>userId\<close> that does not read as a uuid is an error of the
  statement; otherwise every row of that user and plan type is rewritten and the
  others stay. The values written satisfy the checks of the table.
\<close>

definition update_user_subscriptions ::
  "db \<Rightarrow> string \<Rightarrow> string \<Rightarrow> (subscription_row \<Rightarrow> subscription_row)
     \<Rightarrow> db_error option \<times> db" where
  "update_user_subscriptions d userId planType set_columns =
     (case uuid_in userId of
        None \<Rightarrow> (Some (InvalidUuid userId), d)
      | Some user_id \<Rightarrow>
          (None, d\<lparr>user_subscriptions :=
                    map (\<lambda>r. if s_user_id r = user_id \<and> s_plan_type r = planType
                              then set_columns r else r)
                        (user_subscriptions d)\<rparr>))"

definition insert_user_signal_access :: "db \<Rightarrow> access_row \<Rightarrow> db_error option \<times> db" where
  "insert_user_signal_access d row =
     (if (a_user_id row, a_signal_id row)
           \<in> set (map (\<lambda>a. (a_user_id a, a_signal_id a)) (user_signal_access d))
        then (Some (UniqueViolation ''user_signal_access_user_id_signal_id_key''), d)
      else if a_user_id row \<in> set (map u_id (users d))
        then
          if a_signal_id row \<in> set (map sig_id (trading_signals d))
            then (None, d\<lparr>user_signal_access := user_signal_access d @ [row]\<rparr>)
          else (Some (ForeignKeyViolation ''user_signal_access''
                        ''user_signal_access_signal_id_fkey''), d)
      else (Some (ForeignKeyViolation ''user_signal_access''
                    ''user_signal_access_user_id_fkey''), d))"

subsection \<open>The purchase trigger\<close>

text \<open>
  \<open>notify_admin_on_purchase\<close> runs after each row inserted into \<open>purchases\<close>: an
  \<open>INSERT ... SELECT ... FROM users u WHERE u.id = NEW.user_id\<close>, one notification for
  each user row the select yields. \<open>is_read\<close> takes its default.
\<close>

fun payment_method_text :: "payment_method \<Rightarrow> string" where
  "payment_method_text Stripe = ''stripe''"
| "payment_method_text Paypal = ''paypal''"
| "payment_method_text CryptoPayment = ''crypto''"

definition purchase_notification :: "purchase_row \<Rightarrow> user_row \<Rightarrow> notification_row" where
  "purchase_notification NEW u =
     \<lparr> n_notification_type = Purchase,
       n_title = ''New Purchase: '' @ p_plan_name NEW,
       n_message = ''User '' @ u_email u @ '' purchased '' @ p_plan_name NEW
                     @ '' for $'' @ numeric_text (p_amount NEW),
       n_related_user_id = Some (p_user_id NEW),
       n_related_purchase_id = Some (p_id NEW),
       n_metadata =
         [(''user_email'', JString (u_email u)),
          (''user_name'', JString (u_first_name u @ '' '' @ u_last_name u)),
          (''plan_name'', JString (p_plan_name NEW)),
          (''amount'', JNumber (p_amount NEW)),
          (''payment_method'', JString (payment_method_text (p_payment_method NEW)))],
       n_is_read = False \<rparr>"

definition notify_admin_on_purchase :: "db \<Rightarrow> purchase_row \<Rightarrow> db" where
  "notify_admin_on_purchase d NEW =
     d\<lparr>admin_notifications := admin_notifications d @
         map (purchase_notification NEW)
             (filter (\<lambda>u. u_id u = p_user_id NEW) (users d))\<rparr>"

definition insert_purchases :: "db \<Rightarrow> purchase_row \<Rightarrow> (db_error + purchase_row) \<times> db" where
  "insert_purchases d row =
     (if p_id row \<in> set (map p_id (purchases d))
        then (Inl (UniqueViolation ''purchases_pkey''), d)
      else if p_user_id row \<in> set (map u_id (users d))
        then (Inr row,
              notify_admin_on_purchase (d\<lparr>purchases := purchases d @ [row]\<rparr>) row)
      else (Inl (ForeignKeyViolation ''purchases'' ''purchases_user_id_fkey''), d))"

subsection \<open>Dates\<close>

text \<open>
  \<open>Date\<close> as the language defines it. A time value is milliseconds since the epoch,
  UTC. \<open>LocalTZA(t, isUTC)\<close> is the offset of the time zone of the runtime, for a
  time value when \<open>isUTC\<close> is true and for a local time otherwise; the zone belongs
  to the browser the code runs in, so \<open>LocalTZA\<close> is an argument of the model.
  \<open>civil_from_days\<close> is the year, the month (0 to 11) and the day of the month of a
  day number, \<open>first_of_month\<close> the day number of the first day of a month.
  \<open>MakeDay\<close> carries a month beyond 11 into the year and a day beyond the end of the
  month into the following month. \<open>getMonth\<close> and \<open>setMonth\<close> work on the local
  time.
\<close>

type_synonym time_zone = "timestamp \<Rightarrow> bool \<Rightarrow> int"

definition LocalTime :: "time_zone \<Rightarrow> timestamp \<Rightarrow> int" where
  "LocalTime LocalTZA t = t + LocalTZA t True"

definition UTC :: "time_zone \<Rightarrow> int \<Rightarrow> timestamp" where
  "UTC LocalTZA t = t - LocalTZA t False"

definition msPerDay :: int where
  "msPerDay = 86400000"

definition year_of_era :: "int \<Rightarrow> int" where
  "year_of_era doe = (doe - doe div 1460 + doe div 36524 - doe div 146096) div 365"

definition civil_from_days :: "int \<Rightarrow> int \<times> int \<times> int" where
  "civil_from_days z =
     (let era = (z + 719468) div 146097;
          doe = (z + 719468) mod 146097;
          yoe = year_of_era doe;
          doy = doe - (365 * yoe + yoe div 4 - yoe div 100);
          mp = (5 * doy + 2) div 153;
          d = doy - (153 * mp + 2) div 5 + 1;
          m = (if mp < 10 then mp + 2 else mp - 10);
          y = yoe + era * 400
      in (if m \<le> 1 then y + 1 else y, m, d))"

definition first_of_month :: "int \<Rightarrow> int \<Rightarrow> int" where
  "first_of_month y m =
     (let y' = (if m \<le> 1 then y - 1 else y);
          era = y' div 400;
          yoe = y' mod 400;
          doy = (153 * (if m > 1 then m - 2 else m + 10) + 2) div 5;
          doe = yoe * 365 + yoe div 4 - yoe div 100 + doy
      in era * 146097 + doe - 719468)"

definition MakeDay :: "int \<Rightarrow> int \<Rightarrow> int \<Rightarrow> int" where
  "MakeDay year month date =
     (let ym = year + month div 12; mn = month mod 12
      in first_of_month ym mn + date - 1)"

definition getMonth :: "time_zone \<Rightarrow> timestamp \<Rightarrow> int" where
  "getMonth LocalTZA t =
     (case civil_from_days (LocalTime LocalTZA t div msPerDay) of (y, m, d) \<Rightarrow> m)"

definition setMonth :: "time_zone \<Rightarrow> timestamp \<Rightarrow> int \<Rightarrow> timestamp" where
  "setMonth LocalTZA t month =
     (let local = LocalTime LocalTZA t
      in case civil_from_days (local div msPerDay) of
           (y, m, d) \<Rightarrow>
             UTC LocalTZA (MakeDay y month d * msPerDay + local mod msPerDay))"




section \<open>The services\<close>

text \<open>
  A service answers with an object \<open>{ success: false, error }\<close> or with
  \<open>{ success: true, ... }\<close>; a service that writes also returns the database it
  leaves behind. What a service draws from its surroundings is an argument of the
  model: the clock, the identifier the database generates for a new row, the random
  number, the password hash.
\<close>

datatype 'a result = Failure string | Success 'a

subsection \<open>The legacy auth service\<close>

record SignInData =
  email :: string
  password :: string

record SignUpData = SignInData +
  firstName :: string
  lastName :: string
  plan_type :: string

record signup_user =
  su_id :: uuid
  su_email :: string
  su_first_name :: string
  su_last_name :: string
  su_unique_id :: string
  su_plan_type :: string

text \<open>
  \<open>Math.floor(100000 + Math.random() * 900000).toString()\<close>, with \<open>k\<close> the whole
  part of \<open>Math.random() * 900000\<close>.
\<close>

definition uniqueId_of :: "nat \<Rightarrow> string" where
  "uniqueId_of k = show_nat (100000 + k)"

definition subscription_of :: "uuid \<Rightarrow> string \<Rightarrow> property_value \<Rightarrow> subscription_insert" where
  "subscription_of user_id planType planDetails =
     \<lparr> i_user_id = user_id,
       i_plan_type = planType,
       i_plan_name = planDetails_name planDetails,
       i_price = planDetails_price planDetails,
       i_period = planDetails_period planDetails,
       i_status = Pending,
       i_features = planDetails_features planDetails \<rparr>"

text \<open>
  \<open>signUp\<close> of \<open>supabaseAuth.ts\<close>. \<open>new_id\<close> is the identifier the database gives
  the user row, \<open>passwordHash\<close> what \<open>bcrypt.hash\<close> returned. Each \<open>throw\<close> lands in
  the \<open>catch\<close>, which answers with the message of the error. The three inserts are
  three statements: a later failure leaves the earlier rows in place.
\<close>

definition signUp :: "db \<Rightarrow> uuid \<Rightarrow> string \<Rightarrow> nat \<Rightarrow> SignUpData \<Rightarrow> signup_user result \<times> db" where
  "signUp d new_id passwordHash k data =
     (case insert_users d
             \<lparr> u_id = new_id, u_email = email data, u_password_hash = passwordHash,
               u_first_name = firstName data, u_last_name = lastName data,
               u_role = User, u_is_active = Some True,
               u_email_verified = Some False \<rparr> of
        (Inl userError, d1) \<Rightarrow>
          (Failure (or_else (message_of userError) ''Registration failed''), d1)
      | (Inr user, d1) \<Rightarrow>
          let uniqueId = uniqueId_of k in
          (case insert_user_profiles d1
                  \<lparr> pr_user_id = u_id user, pr_unique_id = uniqueId,
                    pr_account_type = ''personal'', pr_risk_tolerance = ''moderate'',
                    pr_setup_complete = False, pr_timezone = ''UTC'' \<rparr> of
             (Some profileError, d2) \<Rightarrow>
               (Failure (or_else (message_of profileError) ''Registration failed''), d2)
           | (None, d2) \<Rightarrow>
               let planDetails = getPlanDetails (plan_type data) in
               (case insert_user_subscriptions d2
                       (subscription_of (u_id user) (plan_type data) planDetails) of
                  (Some subscriptionError, d3) \<Rightarrow>
                    (Failure (or_else (message_of subscriptionError)
                                ''Registration failed''), d3)
                | (None, d3) \<Rightarrow>
                    (Success \<lparr> su_id = u_id user, su_email = u_email user,
                                su_first_name = u_first_name user,
                                su_last_name = u_last_name user,
                                su_unique_id = uniqueId,
                                su_plan_type = plan_type data \<rparr>, d3))))"



subsection \<open>The auth service that delegates to the provider\<close>

text \<open>
  What \<open>supabase.auth.signUp\<close> answered: the account it created, if any, and its
  error, if any. The provider is outside the database of the model, so its answer is
  an argument.
\<close>

record auth_user =
  au_id :: uuid
  au_email :: string

record auth_response =
  authData_user :: "auth_user option"
  authError :: "string option"

text \<open>
  \<open>signUp\<close> of the second auth service. After the profile insert the object for
  \<open>user_subscriptions\<close> is built from \<open>user.id\<close>; the function binds \<open>data\<close>,
  \<open>authData\<close>, \<open>authError\<close>, \<open>uniqueId\<close>, \<open>profileError\<close> and \<open>planDetails\<close>, the
  module imports \<open>supabase\<close>, and nothing declares \<open>user\<close>: evaluating the
  identifier throws a \<open>ReferenceError\<close> before the insert is sent, and the \<open>catch\<close>
  answers with its message.
\<close>

definition signUp_provider ::
  "db \<Rightarrow> auth_response \<Rightarrow> nat \<Rightarrow> SignUpData \<Rightarrow> signup_user result \<times> db" where
  "signUp_provider d response k data =
     (case authError response of
        Some msg \<Rightarrow> (Failure (or_else msg ''Registration failed''), d)
      | None \<Rightarrow>
          (case authData_user response of
             None \<Rightarrow> (Failure ''User creation failed'', d)
           | Some account \<Rightarrow>
               let uniqueId = uniqueId_of k in
               (case insert_user_profiles d
                       \<lparr> pr_user_id = au_id account, pr_unique_id = uniqueId,
                         pr_account_type = ''personal'',
                         pr_risk_tolerance = ''moderate'',
                         pr_setup_complete = False, pr_timezone = ''UTC'' \<rparr> of
                  (Some profileError, d1) \<Rightarrow>
                    (Failure (or_else (message_of profileError)
                                ''Registration failed''), d1)
                | (None, d1) \<Rightarrow>
                    let planDetails = getPlanDetails (plan_type data) in
                    (Failure ''user is not defined'', d1))))"

subsection \<open>The trading signal service\<close>







text \<open>
  The insert \<open>trackSignalView\<close> sends: the engine reads \<open>user_id\<close> and \<open>signal_id\<close>
  as uuids, in the order of the columns, before it checks the row.
\<close>

definition post_user_signal_access ::
  "db \<Rightarrow> string \<Rightarrow> string \<Rightarrow> timestamp \<Rightarrow> db_error option \<times> db" where
  "post_user_signal_access d userId signalId viewed_at =
     (case uuid_in userId of
        None \<Rightarrow> (Some (InvalidUuid userId), d)
      | Some user_id \<Rightarrow>
          (case uuid_in signalId of
             None \<Rightarrow> (Some (InvalidUuid signalId), d)
           | Some signal_id \<Rightarrow>
               insert_user_signal_access d
                 \<lparr> a_user_id = user_id, a_signal_id = signal_id,
                   a_viewed_at = Some viewed_at \<rparr>))"

text \<open>
  \<open>trackSignalView\<close>: an error of the insert is thrown unless its message contains
  \<open>duplicate\<close>.
\<close>

definition trackSignalView :: "db \<Rightarrow> timestamp \<Rightarrow> string \<Rightarrow> string \<Rightarrow> unit result \<times> db" where
  "trackSignalView d now userId signalId =
     (case post_user_signal_access d userId signalId now of
        (None, d1) \<Rightarrow> (Success (), d1)
      | (Some error, d1) \<Rightarrow>
          if str_includes (message_of error) ''duplicate''
          then (Success (), d1)
          else (Failure (message_of error), d1))"




subsection \<open>The purchase service\<close>

text \<open>
  \<open>activateSubscription\<close> reads the clock twice: \<open>clock1\<close> is the \<open>new Date()\<close> that
  becomes \<open>expiresAt\<close>, \<open>clock2\<close> the one written to \<open>started_at\<close>.
\<close>

definition activateSubscription ::
  "db \<Rightarrow> time_zone \<Rightarrow> timestamp \<Rightarrow> timestamp \<Rightarrow> string \<Rightarrow> string \<Rightarrow> unit result \<times> db" where
  "activateSubscription d LocalTZA clock1 clock2 userId planType =
     (let planDetails = getPlanDetails planType;
          expiresAt = (if planType = ''enterprise''
                       then setMonth LocalTZA clock1 (getMonth LocalTZA clock1 + 3)
                       else setMonth LocalTZA clock1 (getMonth LocalTZA clock1 + 1))
      in case update_user_subscriptions d userId planType
                (\<lambda>r. r\<lparr> s_status := Active, s_started_at := Some clock2,
                         s_expires_at := Some expiresAt \<rparr>) of
           (Some updateError, d1) \<Rightarrow> (Failure (message_of updateError), d1)
         | (None, d1) \<Rightarrow> (Success (), d1))"

record CreatePurchaseData =
  userId :: string
  planType :: string
  planName :: string
  amount :: int
  paymentMethod :: payment_method
  transactionId :: "string option"
  paymentDetails :: "(string \<times> json) list option"

record NotifyData = CreatePurchaseData +
  userEmail :: string
  userName :: string
  data_features :: "string list"

text \<open>
  \<open>createPurchase\<close>; \<open>new_id\<close> is the identifier the database gives the row. The
  engine reads \<open>user_id\<close> as a uuid before it checks the row.
\<close>

definition createPurchase ::
  "db \<Rightarrow> uuid \<Rightarrow> timestamp \<Rightarrow> 'a CreatePurchaseData_scheme \<Rightarrow> purchase_row result \<times> db" where
  "createPurchase d new_id now data =
     (case (case uuid_in (userId data) of
              None \<Rightarrow> (Inl (InvalidUuid (userId data)), d)
            | Some user_id \<Rightarrow>
                insert_purchases d
                  \<lparr> p_id = new_id, p_user_id = user_id, p_plan_type = planType data,
                    p_plan_name = planName data, p_amount = amount data,
                    p_currency = ''USD'', p_payment_method = paymentMethod data,
                    p_payment_status = Completed, p_transaction_id = transactionId data,
                    p_payment_details = paymentDetails data,
                    p_completed_at = Some now \<rparr>) of
        (Inl purchaseError, d1) \<Rightarrow> (Failure (message_of purchaseError), d1)
      | (Inr purchase, d1) \<Rightarrow> (Success purchase, d1))"

text \<open>
  The arguments of \<open>emailService.sendPaymentSuccessEmail\<close>, in the order of the call.
  The email service is not among the sources at hand, so it is an argument of
  \<open>processPurchaseAndNotify\<close>: a function from the call and the database to the
  database it leaves and, when it throws, the message of what it threw.
\<close>

record email_call =
  e_userEmail :: string
  e_userName :: string
  e_amount :: int
  e_planName :: string
  e_transactionId :: string
  e_userId :: string
  e_features :: "string list"

type_synonym email_service = "email_call \<Rightarrow> db \<Rightarrow> string option \<times> db"

definition processPurchaseAndNotify ::
  "email_service \<Rightarrow> db \<Rightarrow> time_zone \<Rightarrow> uuid \<Rightarrow> timestamp \<Rightarrow> timestamp \<Rightarrow> timestamp
     \<Rightarrow> NotifyData \<Rightarrow> purchase_row result \<times> db" where
  "processPurchaseAndNotify sendPaymentSuccessEmail d LocalTZA new_id now clock1 clock2 data =
     (case createPurchase d new_id now data of
        (Failure error, d1) \<Rightarrow> (Failure error, d1)
      | (Success purchase, d1) \<Rightarrow>
          (case activateSubscription d1 LocalTZA clock1 clock2 (userId data)
                  (planType data) of
             (activation, d2) \<Rightarrow>
               (case sendPaymentSuccessEmail
                       \<lparr> e_userEmail = userEmail data, e_userName = userName data,
                         e_amount = amount data, e_planName = planName data,
                         e_transactionId =
                           (case transactionId data of
                              None \<Rightarrow> ''N/A''
                            | Some t \<Rightarrow> or_else t ''N/A''),
                         e_userId = userId data,
                         e_features = data_features data \<rparr> d2 of
                  (Some thrown, d3) \<Rightarrow> (Failure thrown, d3)
                | (None, d3) \<Rightarrow> (Success purchase, d3))))"

section \<open>Histories\<close>

text \<open>
  The calls that write to the tables of the model, each with what it draws from its
  surroundings, and the database a sequence of calls leaves.
  \<open>processPurchaseAndNotify\<close> writes through \<open>createPurchase\<close> and
  \<open>activateSubscription\<close>, which are calls of their own here.
\<close>

datatype call =
    SignUp uuid string nat SignUpData
  | SignUpProvider auth_response nat SignUpData
  | CreatePurchase uuid timestamp CreatePurchaseData
  | ActivateSubscription time_zone timestamp timestamp string string
  | TrackSignalView timestamp string string

fun exec :: "db \<Rightarrow> call \<Rightarrow> db" where
  "exec d (SignUp new_id passwordHash k data) = snd (signUp d new_id passwordHash k data)"
| "exec d (SignUpProvider response k data) = snd (signUp_provider d response k data)"
| "exec d (CreatePurchase new_id now data) = snd (createPurchase d new_id now data)"
| "exec d (ActivateSubscription LocalTZA clock1 clock2 uid ptype) =
     snd (activateSubscription d LocalTZA clock1 clock2 uid ptype)"
| "exec d (TrackSignalView now uid signalId) = snd (trackSignalView d now uid signalId)"

definition run :: "db \<Rightarrow> call list \<Rightarrow> db" where
  "run d calls = foldl exec d calls"

text \<open>
  A call activates a subscription row when it is a call of \<open>activateSubscription\<close>
  for the user and the plan type of the row and the row carries the \<open>started_at\<close> the
  call wrote. A row was activated in a history when some call of the history
  activates it.
\<close>

fun activates :: "call \<Rightarrow> subscription_row \<Rightarrow> bool" where
  "activates (ActivateSubscription LocalTZA clock1 clock2 uid ptype) r =
     (uuid_in uid = Some (s_user_id r) \<and> s_plan_type r = ptype
      \<and> s_started_at r = Some clock2)"
| "activates (SignUp new_id passwordHash k data) r = False"
| "activates (SignUpProvider response k data) r = False"
| "activates (CreatePurchase new_id now data) r = False"
| "activates (TrackSignalView now uid signalId) r = False"

definition activated_by :: "call list \<Rightarrow> subscription_row \<Rightarrow> bool" where
  "activated_by calls r = list_ex (\<lambda>c. activates c r) calls"

text \<open>The call \<open>processPurchaseAndNotify\<close> makes to the email service for \<open>data\<close>.\<close>

definition payment_success_email :: "NotifyData \<Rightarrow> email_call" where
  "payment_success_email data =
     \<lparr> e_userEmail = userEmail data, e_userName = userName data,
       e_amount = amount data, e_planName = planName data,
       e_transactionId = (case transactionId data of
                            None \<Rightarrow> ''N/A''
                          | Some t \<Rightarrow> or_else t ''N/A''),
       e_userId = userId data, e_features = data_features data \<rparr>"

section \<open>Sample data\<close>

text \<open>
  A user, a second identifier with no user row, a signal and two instants:
  2024-01-15T12:00:00.000Z and one millisecond later.
\<close>

definition ann_id :: uuid where
  "ann_id = ''7c9e6679-7425-40de-944b-e07fc1f90ae7''"

definition bob_id :: uuid where
  "bob_id = ''0b1a2c3d-4e5f-4a6b-8c7d-9e0f1a2b3c4d''"

definition ann :: user_row where
  "ann = \<lparr> u_id = ann_id, u_email = ''ann@example.com'',
           u_password_hash = ''$2a$10$N9qo8uLOickgx2ZMRZoMye'',
           u_first_name = ''Ann'', u_last_name = ''Lee'', u_role = User,
           u_is_active = Some True, u_email_verified = Some False \<rparr>"

definition db_ann :: db where
  "db_ann = empty_db\<lparr> users := [ann] \<rparr>"

definition ann_signs_up :: "string \<Rightarrow> SignUpData" where
  "ann_signs_up ptype = \<lparr> email = ''ann@example.com'', password = ''correct horse'',
       firstName = ''Ann'', lastName = ''Lee'', plan_type = ptype \<rparr>"

definition ann_subscription :: "string \<Rightarrow> plan \<Rightarrow> subscription_row" where
  "ann_subscription ptype p =
     \<lparr> s_user_id = ann_id, s_plan_type = ptype, s_plan_name = name p,
       s_price = price p, s_period = period p, s_status = Pending,
       s_features = features p, s_started_at = None, s_expires_at = None \<rparr>"

definition noon :: timestamp where
  "noon = 1705320000000"

definition signal_1 :: signal_row where
  "signal_1 = \<lparr> sig_id = ''3f2504e0-4f89-41d3-9a0c-0305e82c3301'',
       sig_signal_type = Forex, sig_symbol = ''EURUSD'', sig_status = SignalActive,
       sig_created_at = 1705310000000 \<rparr>"

definition ann_buys :: NotifyData where
  "ann_buys = \<lparr> userId = ann_id, planType = ''pro'', planName = ''Pro'', amount = 199,
       paymentMethod = Stripe, transactionId = Some ''ch_3OZ1'', paymentDetails = None,
       userEmail = ''ann@example.com'', userName = ''Ann Lee'',
       data_features = features pro \<rparr>"

definition purchase_id :: uuid where
  "purchase_id = ''a3bb189e-8bf9-4888-9912-ace4e6543002''"

definition ann_purchase :: purchase_row where
  "ann_purchase = \<lparr> p_id = purchase_id, p_user_id = ann_id, p_plan_type = ''pro'',
       p_plan_name = ''Pro'', p_amount = 199, p_currency = ''USD'',
       p_payment_method = Stripe, p_payment_status = Completed,
       p_transaction_id = Some ''ch_3OZ1'', p_payment_details = None,
       p_completed_at = Some noon \<rparr>"

text \<open>
  Two time zones: UTC, and the rules of America/New_York for 2024 (five hours behind
  UTC, four from 10 March 07:00 UTC to 3 November 06:00 UTC). Two more instants:
  2023-11-15T12:00:00.000Z and 2024-01-31T12:00:00.000Z.
\<close>

definition utc_zone :: time_zone where
  "utc_zone t isUTC = 0"




text \<open>An email service that always throws, and one that never does.\<close>

definition email_down :: email_service where
  "email_down c d = (Some ''connect ECONNREFUSED'', d)"

definition email_up :: email_service where
  "email_up c d = (None, d)"

text \<open>A \<open>bcrypt.compare\<close> that accepts one password for one hash.\<close>

definition compare_ann :: "string \<Rightarrow> string \<Rightarrow> bool" where
  "compare_ann pw hash =
     (pw = ''correct horse'' \<and> hash = ''$2a$10$N9qo8uLOickgx2ZMRZoMye'')"

section \<open>Properties of the plan table\<close>

text \<open>
  C6. For each of the four plan types \<open>kickstarter\<close>, \<open>starter\<close>, \<open>pro\<close> and
  \<open>enterprise\<close>, \<open>getPlanDetails\<close> returns a plan record named
  Kickstarter, Starter, Pro, Enterprise, priced 0, 99, 199, 499, with period
  \<open>month\<close> for the first three and \<open>3 months\<close> for enterprise, and a feature list
  that is not empty.
\<close>

theorem getPlanDetails_four_plans:
  "(\<exists>p. getPlanDetails ''kickstarter'' = PlanObject p \<and> name p = ''Kickstarter''
        \<and> price p = 0 \<and> period p = ''month'' \<and> features p \<noteq> [])
   \<and> (\<exists>p. getPlanDetails ''starter'' = PlanObject p \<and> name p = ''Starter''
        \<and> price p = 99 \<and> period p = ''month'' \<and> features p \<noteq> [])
   \<and> (\<exists>p. getPlanDetails ''pro'' = PlanObject p \<and> name p = ''Pro''
        \<and> price p = 199 \<and> period p = ''month'' \<and> features p \<noteq> [])
   \<and> (\<exists>p. getPlanDetails ''enterprise'' = PlanObject p \<and> name p = ''Enterprise''
        \<and> price p = 499 \<and> period p = ''3 months'' \<and> features p \<noteq> [])"
  by (simp add: getPlanDetails_def plans_get_def plans_def
      kickstarter_def starter_def pro_def enterprise_def)

section \<open>Evaluating the sample data\<close>

lemmas sample_defs = ann_id_def bob_id_def ann_def db_ann_def ann_signs_up_def
  ann_subscription_def noon_def signal_1_def ann_buys_def purchase_id_def
  ann_purchase_def email_down_def email_up_def compare_ann_def empty_db_def

lemmas uuid_defs = uuid_in_def hyphen_after_def is_hex_def lower_hex_def uuid_out_def

text \<open>The identifiers of the sample data are uuids in their canonical form.\<close>

lemma uuid_in_ann_id: "uuid_in ann_id = Some ann_id"
  by (simp add: ann_id_def uuid_defs)

lemma uuid_in_bob_id: "uuid_in bob_id = Some bob_id"
  by (simp add: bob_id_def uuid_defs)

lemma uuid_in_signal_1: "uuid_in (sig_id signal_1) = Some (sig_id signal_1)"
  by (simp add: signal_1_def uuid_defs)

lemmas uuid_in_samples =
  uuid_in_ann_id uuid_in_bob_id uuid_in_signal_1
  uuid_in_ann_id [unfolded ann_id_def] uuid_in_bob_id [unfolded bob_id_def]
  uuid_in_signal_1 [unfolded signal_1_def, simplified]

text \<open>Upper case, braces and missing hyphens are read; other texts are not.\<close>

lemma uuid_in_other_forms:
  "uuid_in ''{7C9E6679742540DE944BE07FC1F90AE7}'' = Some ann_id"
  "uuid_in ''not-a-uuid'' = None"
  "uuid_in ''duplicate'' = None"
  "uuid_in [] = None"
  by (simp_all add: ann_id_def uuid_defs)

text \<open>
  Three months after 2024-01-15T12:00Z: 2024-04-15T12:00Z in UTC, and
  2024-04-15T11:00Z in New York, where 07:00 local time is 12:00Z in January and
  11:00Z in April. One month after: 2024-02-15T12:00Z. Three months after
  2023-11-15T12:00Z: 2024-02-15T12:00Z. One month after 2024-01-31T12:00Z, the
  thirty-first day counted from 1 February: 2024-03-02T12:00Z.
\<close>

lemma three_months_after_noon:
  "setMonth utc_zone noon (getMonth utc_zone noon + 3) = 1713182400000"
  by code_simp


lemma one_month_after_noon:
  "setMonth utc_zone noon (getMonth utc_zone noon + 1) = 1707998400000"
  by code_simp





lemma getPlanDetails_unlisted:
  "ptype \<notin> set plan_types \<Longrightarrow> ptype \<noteq> ''__proto__''
     \<Longrightarrow> ptype \<notin> set object_prototype_functions
     \<Longrightarrow> getPlanDetails ptype = PlanObject starter"
  by (simp add: getPlanDetails_def plans_get_def plans_def plan_types_def)

lemma getPlanDetails_listed:
  "ptype \<in> set plan_types \<Longrightarrow> \<exists>p. getPlanDetails ptype = PlanObject p"
  by (auto simp add: getPlanDetails_def plans_get_def plans_def plan_types_def)

section \<open>What the statements change\<close>

lemma insert_users_subscriptions [simp]:
  "user_subscriptions (snd (insert_users d row)) = user_subscriptions d"
  by (simp add: insert_users_def)

lemma insert_user_profiles_subscriptions [simp]:
  "user_subscriptions (snd (insert_user_profiles d row)) = user_subscriptions d"
  by (simp add: insert_user_profiles_def)

lemma insert_purchases_subscriptions [simp]:
  "user_subscriptions (snd (insert_purchases d row)) = user_subscriptions d"
  by (simp add: insert_purchases_def notify_admin_on_purchase_def)

lemma insert_user_signal_access_subscriptions [simp]:
  "user_subscriptions (snd (insert_user_signal_access d row)) = user_subscriptions d"
  by (simp add: insert_user_signal_access_def)

lemma insert_users_id:
  "insert_users d row = (Inr user, d') \<Longrightarrow> user = row"
  by (simp add: insert_users_def split: if_splits)

lemma insert_user_subscriptions_refused:
  "i_plan_type v \<notin> set plan_types \<Longrightarrow>
     \<exists>e. insert_user_subscriptions d v = (Some e, d)"
  by (simp add: insert_user_subscriptions_def split: option.split)

lemma insert_user_subscriptions_failed:
  "insert_user_subscriptions d v = (Some e, d') \<Longrightarrow> d' = d"
  by (simp add: insert_user_subscriptions_def split: option.splits if_splits)

lemma insert_user_subscriptions_done:
  assumes "insert_user_subscriptions d v = (None, d')"
  shows "i_plan_type v \<in> set plan_types"
    and "\<exists>nm. i_plan_name v = Some nm \<and>
           user_subscriptions d' = user_subscriptions d @
             [\<lparr> s_user_id = i_user_id v, s_plan_type = i_plan_type v, s_plan_name = nm,
                s_price = (case i_price v of None \<Rightarrow> 0 | Some x \<Rightarrow> x),
                s_period = (case i_period v of None \<Rightarrow> ''month'' | Some x \<Rightarrow> x),
                s_status = i_status v,
                s_features = (case i_features v of None \<Rightarrow> [] | Some x \<Rightarrow> x),
                s_started_at = None, s_expires_at = None \<rparr>]"
  using assms
  by (auto simp add: insert_user_subscriptions_def split: option.splits if_splits)

lemma insert_purchases_refused:
  "insert_purchases d row = (Inl e, d1) \<Longrightarrow> d1 = d"
  by (simp add: insert_purchases_def split: if_splits)

lemma insert_purchases_runs_trigger:
  "insert_purchases d row = (Inr p, d1) \<Longrightarrow>
     admin_notifications d1 = admin_notifications (notify_admin_on_purchase d row)"
  by (auto simp add: insert_purchases_def notify_admin_on_purchase_def split: if_splits)

lemma insert_purchases_done:
  "insert_purchases d row = (Inr p, d1) \<Longrightarrow> p = row \<and> purchases d1 = purchases d @ [row]"
  by (auto simp add: insert_purchases_def notify_admin_on_purchase_def split: if_splits)

lemma filter_key_unique:
  "distinct (map f xs) \<Longrightarrow> u \<in> set xs \<Longrightarrow> filter (\<lambda>x. f x = f u) xs = [u]"
proof (induction xs)
  case Nil
  then show ?case by simp
next
  case (Cons x xs)
  show ?case
  proof (cases "x = u")
    case True
    have "f u \<notin> f ` set xs" using Cons.prems(1) True by simp
    then have "filter (\<lambda>x. f x = f u) xs = []"
      by (simp add: filter_empty_conv image_iff) metis
    then show ?thesis using True by simp
  next
    case False
    then have "u \<in> set xs" using Cons.prems(2) by simp
    moreover have "f x \<noteq> f u" using Cons.prems(1) \<open>u \<in> set xs\<close> by auto
    ultimately show ?thesis using Cons by simp
  qed
qed

lemma filter_key_none:
  "k \<notin> f ` set xs \<Longrightarrow> filter (\<lambda>x. f x = k) xs = []"
  by (auto simp add: filter_empty_conv)

lemma count_key_one:
  "distinct (map f xs) \<Longrightarrow> k \<in> f ` set xs \<Longrightarrow> length (filter (\<lambda>x. f x = k) xs) = 1"
  using filter_key_unique[of f xs] by fastforce

section \<open>Sign-up\<close>

lemma signUp_subscriptions:
  "(\<exists>msg. fst (signUp d new_id h k data) = Failure msg
        \<and> user_subscriptions (snd (signUp d new_id h k data)) = user_subscriptions d)
   \<or> (\<exists>u p. fst (signUp d new_id h k data) = Success u
        \<and> getPlanDetails (plan_type data) = PlanObject p
        \<and> user_subscriptions (snd (signUp d new_id h k data)) = user_subscriptions d @
             [\<lparr> s_user_id = new_id, s_plan_type = plan_type data, s_plan_name = name p,
                s_price = price p, s_period = period p, s_status = Pending,
                s_features = features p, s_started_at = None, s_expires_at = None \<rparr>])"
proof -
  obtain r1 d1 where i1: "insert_users d \<lparr> u_id = new_id, u_email = email data, u_password_hash = h,
               u_first_name = firstName data, u_last_name = lastName data,
               u_role = User, u_is_active = Some True,
               u_email_verified = Some False \<rparr> = (r1, d1)" by fastforce
  have s1: "user_subscriptions d1 = user_subscriptions d"
    using insert_users_subscriptions[of d] i1 by (metis snd_conv)
  show ?thesis
  proof (cases r1)
    case (Inl e)
    then show ?thesis using i1 s1 by (simp add: signUp_def)
  next
    case (Inr user)
    have "user = \<lparr> u_id = new_id, u_email = email data, u_password_hash = h,
               u_first_name = firstName data, u_last_name = lastName data,
               u_role = User, u_is_active = Some True,
               u_email_verified = Some False \<rparr>"
      using i1 Inr insert_users_id by blast
    then have uid: "u_id user = new_id" by simp
    obtain r2 d2 where i2: "insert_user_profiles d1
                  \<lparr> pr_user_id = u_id user, pr_unique_id = uniqueId_of k,
                    pr_account_type = ''personal'', pr_risk_tolerance = ''moderate'',
                    pr_setup_complete = False, pr_timezone = ''UTC'' \<rparr> = (r2, d2)" by fastforce
    have s2: "user_subscriptions d2 = user_subscriptions d1"
      using insert_user_profiles_subscriptions[of d1] i2 by (metis snd_conv)
    show ?thesis
    proof (cases r2)
      case (Some e)
      then show ?thesis using i1 Inr i2 s1 s2 by (simp add: signUp_def Let_def)
    next
      case None
      note r2 = this
      let ?v = "subscription_of (u_id user) (plan_type data) (getPlanDetails (plan_type data))"
      obtain r3 d3 where i3: "insert_user_subscriptions d2 ?v = (r3, d3)" by fastforce
      show ?thesis
      proof (cases r3)
        case (Some e)
        then have "d3 = d2" using i3 insert_user_subscriptions_failed by blast
        then show ?thesis using i1 Inr i2 r2 i3 Some s1 s2 by (simp add: signUp_def Let_def)
      next
        case None
        have "plan_type data \<in> set plan_types"
          using insert_user_subscriptions_done(1)[of d2 ?v d3] i3 None
          by (simp add: subscription_of_def)
        then obtain p where p: "getPlanDetails (plan_type data) = PlanObject p"
          using getPlanDetails_listed by blast
        have "user_subscriptions d3 = user_subscriptions d2 @
             [\<lparr> s_user_id = new_id, s_plan_type = plan_type data, s_plan_name = name p,
                s_price = price p, s_period = period p, s_status = Pending,
                s_features = features p, s_started_at = None, s_expires_at = None \<rparr>]"
          using insert_user_subscriptions_done(2)[of d2 ?v d3] i3 None p uid
          by (simp add: subscription_of_def)
        then show ?thesis using i1 Inr i2 r2 i3 None s1 s2 p by (simp add: signUp_def Let_def)
      qed
    qed
  qed
qed

lemma signUp_provider_result:
  "(\<exists>msg. fst (signUp_provider d response k data) = Failure msg)
   \<and> user_subscriptions (snd (signUp_provider d response k data)) = user_subscriptions d"
proof (cases "authError response")
  case (Some msg)
  then show ?thesis by (simp add: signUp_provider_def)
next
  case None
  note noerr = this
  show ?thesis
  proof (cases "authData_user response")
    case None
    with noerr show ?thesis by (simp add: signUp_provider_def)
  next
    case (Some account)
    obtain r2 d2 where i2: "insert_user_profiles d
          \<lparr> pr_user_id = au_id account, pr_unique_id = uniqueId_of k,
            pr_account_type = ''personal'', pr_risk_tolerance = ''moderate'',
            pr_setup_complete = False, pr_timezone = ''UTC'' \<rparr> = (r2, d2)"
      by fastforce
    have s2: "user_subscriptions d2 = user_subscriptions d"
      using insert_user_profiles_subscriptions[of d] i2 by (metis snd_conv)
    show ?thesis
      using noerr Some i2 s2 by (cases r2) (simp_all add: signUp_provider_def Let_def)
  qed
qed

lemma signUp_unrecognised:
  assumes "plan_type data \<notin> set plan_types"
  shows "(\<exists>msg. fst (signUp d new_id h k data) = Failure msg)
         \<and> user_subscriptions (snd (signUp d new_id h k data)) = user_subscriptions d"
proof -
  obtain r1 d1 where i1: "insert_users d \<lparr> u_id = new_id, u_email = email data, u_password_hash = h,
               u_first_name = firstName data, u_last_name = lastName data,
               u_role = User, u_is_active = Some True,
               u_email_verified = Some False \<rparr> = (r1, d1)" by fastforce
  have s1: "user_subscriptions d1 = user_subscriptions d"
    using insert_users_subscriptions[of d] i1 by (metis snd_conv)
  show ?thesis
  proof (cases r1)
    case (Inl e)
    then show ?thesis using i1 s1 by (simp add: signUp_def)
  next
    case (Inr user)
    obtain r2 d2 where i2: "insert_user_profiles d1
                  \<lparr> pr_user_id = u_id user, pr_unique_id = uniqueId_of k,
                    pr_account_type = ''personal'', pr_risk_tolerance = ''moderate'',
                    pr_setup_complete = False, pr_timezone = ''UTC'' \<rparr> = (r2, d2)" by fastforce
    have s2: "user_subscriptions d2 = user_subscriptions d1"
      using insert_user_profiles_subscriptions[of d1] i2 by (metis snd_conv)
    show ?thesis
    proof (cases r2)
      case (Some e)
      then show ?thesis using i1 Inr i2 s1 s2 by (simp add: signUp_def Let_def)
    next
      case None
      obtain e where "insert_user_subscriptions d2
          (subscription_of (u_id user) (plan_type data) (getPlanDetails (plan_type data))) = (Some e, d2)"
        using insert_user_subscriptions_refused[of "subscription_of (u_id user) (plan_type data) (getPlanDetails (plan_type data))" d2] assms
        by (auto simp add: subscription_of_def)
      then show ?thesis using i1 Inr i2 None s1 s2 by (simp add: signUp_def Let_def)
    qed
  qed
qed

text \<open>
  C9 as stated fails twice. The key \<open>constructor\<close> is none of the four plan types,
  yet \<open>plans['constructor']\<close> is found on the prototype chain and is truthy, so
  \<open>getPlanDetails\<close> returns the function \<open>Object\<close> and not the Starter plan. And a
  \<open>signUp\<close> with the plan type \<open>gold\<close> fails: the check constraint on \<open>plan_type\<close>
  refuses the subscription row, after the user row and the profile row were written.
\<close>

theorem getPlanDetails_fallback_counterexample:
  "getPlanDetails ''constructor'' = BuiltinFunction ''constructor''
   \<and> ''constructor'' \<notin> set plan_types
   \<and> ''gold'' \<notin> set plan_types
   \<and> signUp empty_db ann_id (u_password_hash ann) 0 (ann_signs_up ''gold'')
     = (Failure (message_of (CheckViolation ''user_subscriptions''
                               ''user_subscriptions_plan_type_check'')),
        empty_db\<lparr> users := [ann],
                  user_profiles := [\<lparr> pr_user_id = ann_id,
                      pr_unique_id = uniqueId_of 0, pr_account_type = ''personal'',
                      pr_risk_tolerance = ''moderate'', pr_setup_complete = False,
                      pr_timezone = ''UTC'' \<rparr>] \<rparr>)"
  by (simp add: getPlanDetails_def plans_get_def plans_def object_prototype_functions_def
      signUp_def insert_users_def insert_user_profiles_def insert_user_subscriptions_def
      subscription_of_def plan_types_def or_else_def Let_def sample_defs)

text \<open>
  C9, as the code has it. For every plan type other than the four keys of the table
  and other than the names of the members of \<open>Object.prototype\<close>, \<open>getPlanDetails\<close>
  returns the Starter plan: name Starter, price 99, period month. A \<open>signUp\<close> with a
  plan type other than the four does not succeed: the insert into
  \<open>user_subscriptions\<close> is refused by the constraints of the table, the answer is a
  failure, and no subscription row is created.
\<close>

theorem unrecognised_plan_type:
  assumes "plan_type data \<notin> set plan_types"
  shows "(plan_type data \<noteq> ''__proto__''
            \<and> plan_type data \<notin> set object_prototype_functions
          \<longrightarrow> getPlanDetails (plan_type data) = PlanObject starter)
         \<and> name starter = ''Starter'' \<and> price starter = 99 \<and> period starter = ''month''
         \<and> (\<exists>msg. fst (signUp d new_id h k data) = Failure msg)
         \<and> user_subscriptions (snd (signUp d new_id h k data)) = user_subscriptions d"
  using assms getPlanDetails_unlisted[of "plan_type data"]
    signUp_unrecognised[of data d new_id h k]
  by (simp add: starter_def)

text \<open>The plan type \<open>gold\<close>: Starter details, a failed sign-up, no subscription row.\<close>

theorem unrecognised_plan_type_witness:
  "''gold'' \<notin> set plan_types
   \<and> getPlanDetails ''gold'' = PlanObject starter
   \<and> (\<exists>msg. fst (signUp empty_db ann_id (u_password_hash ann) 0 (ann_signs_up ''gold''))
               = Failure msg)
   \<and> user_subscriptions
        (snd (signUp empty_db ann_id (u_password_hash ann) 0 (ann_signs_up ''gold''))) = []"
  using unrecognised_plan_type
    [of "ann_signs_up ''gold''" empty_db ann_id "u_password_hash ann" 0]
  by (simp add: plan_types_def object_prototype_functions_def ann_signs_up_def empty_db_def)

text \<open>
  C8. In the auth service that delegates to the provider, the object for the
  \<open>user_subscriptions\<close> insert refers to \<open>user\<close>, which nothing defines there.
  Whenever the provider sign-up and the \<open>user_profiles\<close> insert succeed, \<open>signUp\<close>
  throws at that point and answers \<open>success: false\<close>; and on no input does this
  \<open>signUp\<close> answer \<open>success: true\<close>.
\<close>

theorem signUp_provider_never_succeeds:
  "(\<forall>u. fst (signUp_provider d response k data) \<noteq> Success u)
   \<and> (authError response = None \<longrightarrow> authData_user response = Some account \<longrightarrow>
        insert_user_profiles d
          \<lparr> pr_user_id = au_id account, pr_unique_id = uniqueId_of k,
            pr_account_type = ''personal'', pr_risk_tolerance = ''moderate'',
            pr_setup_complete = False, pr_timezone = ''UTC'' \<rparr> = (None, d1) \<longrightarrow>
        signUp_provider d response k data = (Failure ''user is not defined'', d1))"
proof (intro conjI allI impI)
  fix u
  obtain msg where "fst (signUp_provider d response k data) = Failure msg"
    using signUp_provider_result by blast
  then show "fst (signUp_provider d response k data) \<noteq> Success u" by simp
next
  assume "authError response = None" "authData_user response = Some account"
    "insert_user_profiles d
          \<lparr> pr_user_id = au_id account, pr_unique_id = uniqueId_of k,
            pr_account_type = ''personal'', pr_risk_tolerance = ''moderate'',
            pr_setup_complete = False, pr_timezone = ''UTC'' \<rparr> = (None, d1)"
  then show "signUp_provider d response k data = (Failure ''user is not defined'', d1)"
    by (simp add: signUp_provider_def Let_def)
qed

text \<open>
  The provider created the account of Ann and the profile insert went through: the
  answer is the message of the \<open>ReferenceError\<close>, and the profile row stays behind.
\<close>

theorem signUp_provider_never_succeeds_witness:
  "signUp_provider db_ann
     \<lparr> authData_user = Some \<lparr> au_id = ann_id, au_email = ''ann@example.com'' \<rparr>,
       authError = None \<rparr>
     0 (ann_signs_up ''pro'')
   = (Failure ''user is not defined'',
      db_ann\<lparr> user_profiles := [\<lparr> pr_user_id = ann_id,
                      pr_unique_id = uniqueId_of 0, pr_account_type = ''personal'',
                      pr_risk_tolerance = ''moderate'', pr_setup_complete = False,
                      pr_timezone = ''UTC'' \<rparr>] \<rparr>)"
  using signUp_provider_never_succeeds
    [of db_ann
        "\<lparr> authData_user = Some \<lparr> au_id = ann_id, au_email = ''ann@example.com'' \<rparr>,
           authError = None \<rparr>"
        0 "ann_signs_up ''pro''"
        "\<lparr> au_id = ann_id, au_email = ''ann@example.com'' \<rparr>"
        "db_ann\<lparr> user_profiles := [\<lparr> pr_user_id = ann_id,
                      pr_unique_id = uniqueId_of 0, pr_account_type = ''personal'',
                      pr_risk_tolerance = ''moderate'', pr_setup_complete = False,
                      pr_timezone = ''UTC'' \<rparr>] \<rparr>"]
  by (simp add: insert_user_profiles_def db_ann_def empty_db_def ann_def)

section \<open>The calendar\<close>








section \<open>Activation\<close>

lemma createPurchase_subscriptions [simp]:
  "user_subscriptions (snd (createPurchase d new_id now data)) = user_subscriptions d"
proof (cases "uuid_in (userId data)")
  case None
  then show ?thesis by (simp add: createPurchase_def)
next
  case (Some u)
  obtain r d1 where i: "insert_purchases d
             \<lparr> p_id = new_id, p_user_id = u, p_plan_type = planType data,
               p_plan_name = planName data, p_amount = amount data,
               p_currency = ''USD'', p_payment_method = paymentMethod data,
               p_payment_status = Completed, p_transaction_id = transactionId data,
               p_payment_details = paymentDetails data,
               p_completed_at = Some now \<rparr> = (r, d1)" by fastforce
  have "user_subscriptions d1 = user_subscriptions d"
    using insert_purchases_subscriptions[of d] i by (metis snd_conv)
  then show ?thesis using i Some by (cases r) (simp_all add: createPurchase_def)
qed

lemma post_user_signal_access_subscriptions:
  "user_subscriptions (snd (post_user_signal_access d uid sid now)) = user_subscriptions d"
  by (simp add: post_user_signal_access_def split: option.splits)

lemma trackSignalView_subscriptions [simp]:
  "user_subscriptions (snd (trackSignalView d now uid sid)) = user_subscriptions d"
proof -
  obtain r d1 where i: "post_user_signal_access d uid sid now = (r, d1)"
    by fastforce
  have "user_subscriptions d1 = user_subscriptions d"
    using post_user_signal_access_subscriptions[of d uid sid now] i by simp
  then show ?thesis using i by (cases r) (simp_all add: trackSignalView_def)
qed

lemma activateSubscription_invalid:
  "uuid_in uid = None \<Longrightarrow>
     activateSubscription d z c1 c2 uid ptype = (Failure (message_of (InvalidUuid uid)), d)"
  by (simp add: activateSubscription_def update_user_subscriptions_def Let_def)

lemma activateSubscription_valid:
  "uuid_in uid = Some u \<Longrightarrow>
   activateSubscription d z c1 c2 uid ptype =
     (Success (),
      d\<lparr>user_subscriptions :=
           map (\<lambda>r. if s_user_id r = u \<and> s_plan_type r = ptype
                     then r\<lparr> s_status := Active, s_started_at := Some c2,
                             s_expires_at := Some (setMonth z c1 (getMonth z c1 +
                                (if ptype = ''enterprise'' then 3 else 1))) \<rparr>
                     else r) (user_subscriptions d)\<rparr>)"
  by (simp add: activateSubscription_def update_user_subscriptions_def Let_def)

lemma run_snoc: "run d (calls @ [c]) = exec (run d calls) c"
  by (simp add: run_def)

lemma activated_by_snoc: "activated_by calls r \<Longrightarrow> activated_by (calls @ [c]) r"
  by (auto simp add: activated_by_def)

lemma step_keeps_activated:
  assumes IH: "\<forall>r \<in> set (user_subscriptions d0). s_status r = Active \<longrightarrow> activated_by calls r"
    and "user_subscriptions d1 = user_subscriptions d0
         \<or> (\<exists>r. s_status r = Pending \<and> user_subscriptions d1 = user_subscriptions d0 @ [r])"
  shows "\<forall>r \<in> set (user_subscriptions d1). s_status r = Active \<longrightarrow> activated_by (calls @ [c]) r"
proof (intro ballI impI)
  fix r assume r: "r \<in> set (user_subscriptions d1)" and act: "s_status r = Active"
  have "r \<in> set (user_subscriptions d0)"
    using assms(2) r act by auto
  then show "activated_by (calls @ [c]) r" using IH act activated_by_snoc by blast
qed

lemma active_only_by_activation:
  assumes "\<forall>r \<in> set (user_subscriptions d). s_status r \<noteq> Active"
  shows "\<forall>r \<in> set (user_subscriptions (run d calls)).
           s_status r = Active \<longrightarrow> activated_by calls r"
proof (induction calls rule: rev_induct)
  case Nil
  then show ?case using assms by (simp add: run_def)
next
  case (snoc c calls)
  let ?d = "run d calls"
  show ?case
  proof (cases c)
    case (SignUp new_id h k data)
    have "user_subscriptions (exec ?d c) = user_subscriptions ?d
        \<or> (\<exists>r. s_status r = Pending \<and> user_subscriptions (exec ?d c) = user_subscriptions ?d @ [r])"
      using signUp_subscriptions[of ?d new_id h k data] SignUp by auto
    then show ?thesis unfolding run_snoc by (rule step_keeps_activated[OF snoc])
  next
    case (SignUpProvider response k data)
    then have "user_subscriptions (exec ?d c) = user_subscriptions ?d"
      using signUp_provider_result[of ?d response k data] by simp
    then show ?thesis unfolding run_snoc by (intro step_keeps_activated[OF snoc] disjI1)
  next
    case (CreatePurchase new_id now data)
    then have "user_subscriptions (exec ?d c) = user_subscriptions ?d" by simp
    then show ?thesis unfolding run_snoc by (intro step_keeps_activated[OF snoc] disjI1)
  next
    case (ActivateSubscription z c1 c2 uid ptype)
    show ?thesis
    proof (cases "uuid_in uid")
      case None
      then have "user_subscriptions (exec ?d c) = user_subscriptions ?d"
        using ActivateSubscription by (simp add: activateSubscription_invalid)
      then show ?thesis unfolding run_snoc by (intro step_keeps_activated[OF snoc] disjI1)
    next
      case (Some u)
      show ?thesis
      proof (intro ballI impI)
        fix r assume r: "r \<in> set (user_subscriptions (run d (calls @ [c])))"
          and act: "s_status r = Active"
        from r obtain r0 where r0: "r0 \<in> set (user_subscriptions ?d)"
          and rr: "r = (if s_user_id r0 = u \<and> s_plan_type r0 = ptype
                       then r0\<lparr> s_status := Active, s_started_at := Some c2,
                               s_expires_at := Some (setMonth z c1 (getMonth z c1 +
                                  (if ptype = ''enterprise'' then 3 else 1))) \<rparr>
                       else r0)"
          using ActivateSubscription Some
          by (auto simp add: run_snoc activateSubscription_valid)
        show "activated_by (calls @ [c]) r"
        proof (cases "s_user_id r0 = u \<and> s_plan_type r0 = ptype")
          case True
          then have "s_user_id r = u" "s_plan_type r = ptype" "s_started_at r = Some c2"
            using rr by simp_all
          then show ?thesis using ActivateSubscription Some
            by (auto simp add: activated_by_def)
        next
          case False
          then have "r = r0" unfolding rr by auto
          then show ?thesis using snoc r0 act activated_by_snoc by blast
        qed
      qed
    qed
  next
    case (TrackSignalView now uid sid)
    then have "user_subscriptions (exec ?d c) = user_subscriptions ?d" by simp
    then show ?thesis unfolding run_snoc by (intro step_keeps_activated[OF snoc] disjI1)
  qed
qed

text \<open>
  C7. A \<open>user_subscriptions\<close> row inserted by \<open>signUp\<close> has status \<open>pending\<close>, and its
  \<open>plan_name\<close>, \<open>price\<close>, \<open>period\<close> and \<open>features\<close> are those of \<open>getPlanDetails\<close> of
  the requested plan type; the \<open>signUp\<close> of the provider variant inserts no such row.
  In every database reached by a history of calls from one without active
  subscriptions, a row with status \<open>active\<close> was activated by a call of
  \<open>activateSubscription\<close> in that history, never by a sign-up.
\<close>

theorem subscriptions_active_only_after_activation:
  "((\<exists>msg. fst (signUp d new_id h k data) = Failure msg
        \<and> user_subscriptions (snd (signUp d new_id h k data)) = user_subscriptions d)
    \<or> (\<exists>u p. fst (signUp d new_id h k data) = Success u
        \<and> getPlanDetails (plan_type data) = PlanObject p
        \<and> user_subscriptions (snd (signUp d new_id h k data)) = user_subscriptions d @
             [\<lparr> s_user_id = new_id, s_plan_type = plan_type data, s_plan_name = name p,
                s_price = price p, s_period = period p, s_status = Pending,
                s_features = features p, s_started_at = None, s_expires_at = None \<rparr>]))
   \<and> user_subscriptions (snd (signUp_provider d response k data)) = user_subscriptions d
   \<and> ((\<forall>r \<in> set (user_subscriptions d). s_status r \<noteq> Active) \<longrightarrow>
        r \<in> set (user_subscriptions (run d calls)) \<longrightarrow> s_status r = Active \<longrightarrow>
        activated_by calls r)"
  using signUp_subscriptions[of d new_id h k data]
    signUp_provider_result[of d response k data]
    active_only_by_activation[of d calls]
  by blast

text \<open>
  Ann signs up for Pro on an empty database and her subscription is activated: the
  sign-up wrote a pending row, and the active row of the end is the one the
  activation in the history produced.
\<close>

theorem subscriptions_active_only_after_activation_witness:
  "user_subscriptions empty_db = []
   \<and> user_subscriptions
        (snd (signUp empty_db ann_id (u_password_hash ann) 0 (ann_signs_up ''pro'')))
       = [ann_subscription ''pro'' pro]
   \<and> (ann_subscription ''pro'' pro)
         \<lparr> s_status := Active, s_started_at := Some (noon + 1),
           s_expires_at := Some 1707998400000 \<rparr>
       \<in> set (user_subscriptions
                (run empty_db
                   [SignUp ann_id (u_password_hash ann) 0 (ann_signs_up ''pro''),
                    ActivateSubscription utc_zone noon (noon + 1) ann_id ''pro'']))
   \<and> activated_by
         [SignUp ann_id (u_password_hash ann) 0 (ann_signs_up ''pro''),
          ActivateSubscription utc_zone noon (noon + 1) ann_id ''pro'']
         ((ann_subscription ''pro'' pro)
            \<lparr> s_status := Active, s_started_at := Some (noon + 1),
              s_expires_at := Some 1707998400000 \<rparr>)"
  using subscriptions_active_only_after_activation
      [where d = empty_db and new_id = ann_id and h = "u_password_hash ann" and k = 0
         and data = "ann_signs_up ''pro''"
         and calls = "[SignUp ann_id (u_password_hash ann) 0 (ann_signs_up ''pro''),
                       ActivateSubscription utc_zone noon (noon + 1) ann_id ''pro'']"
         and r = "(ann_subscription ''pro'' pro)
                    \<lparr> s_status := Active, s_started_at := Some (noon + 1),
                      s_expires_at := Some 1707998400000 \<rparr>"]
  by (simp add: run_def signUp_def insert_users_def insert_user_profiles_def
      insert_user_subscriptions_def subscription_of_def plan_types_def
      activateSubscription_valid [OF uuid_in_ann_id] one_month_after_noon
      activated_by_def uuid_in_ann_id getPlanDetails_def
      plans_get_def plans_def Let_def empty_db_def ann_signs_up_def ann_subscription_def
      ann_def)




section \<open>Signals\<close>








lemma trackSignalView_unread:
  assumes "uuid_in uid = None \<or> uuid_in sid = None"
  shows "\<exists>message. trackSignalView d now uid sid =
           (if str_includes message ''duplicate'' then Success () else Failure message, d)
         \<and> (\<forall>d' now'. trackSignalView d' now' uid sid =
              (if str_includes message ''duplicate'' then Success () else Failure message, d'))"
proof (cases "uuid_in uid")
  case None
  then show ?thesis
    by (intro exI[of _ "message_of (InvalidUuid uid)"])
       (simp add: trackSignalView_def post_user_signal_access_def)
next
  case (Some u)
  then have "uuid_in sid = None" using assms by simp
  then show ?thesis using Some
    by (intro exI[of _ "message_of (InvalidUuid sid)"])
       (simp add: trackSignalView_def post_user_signal_access_def)
qed

lemma trackSignalView_cases:
  assumes "uuid_in uid = Some u" and "uuid_in sid = Some s"
  shows "trackSignalView d now uid sid =
     (if (u, s) \<in> (\<lambda>a. (a_user_id a, a_signal_id a)) ` set (user_signal_access d)
      then (Success (), d)
      else if u \<in> u_id ` set (users d)
      then if s \<in> sig_id ` set (trading_signals d)
           then (Success (), d\<lparr>user_signal_access := user_signal_access d @
                   [\<lparr> a_user_id = u, a_signal_id = s, a_viewed_at = Some now \<rparr>]\<rparr>)
           else (Failure (message_of (ForeignKeyViolation ''user_signal_access''
                        ''user_signal_access_signal_id_fkey'')), d)
      else (Failure (message_of (ForeignKeyViolation ''user_signal_access''
                    ''user_signal_access_user_id_fkey'')), d))"
  using assms
  by (simp add: trackSignalView_def post_user_signal_access_def
      insert_user_signal_access_def)

text \<open>
  C10 as stated fails for an identifier that is no uuid and contains \<open>duplicate\<close>.
  The engine refuses the insert and quotes the identifier in its message; the message
  contains \<open>duplicate\<close>, so \<open>trackSignalView\<close> swallows the error. Both calls answer
  \<open>success: true\<close>, and the table holds no row for the pair.
\<close>

theorem trackSignalView_swallows_counterexample:
  "user_signal_access (db_ann\<lparr> trading_signals := [signal_1] \<rparr>) = []
   \<and> uuid_in ''duplicate'' = None
   \<and> str_includes (message_of (InvalidUuid ''duplicate'')) ''duplicate''
   \<and> trackSignalView (db_ann\<lparr> trading_signals := [signal_1] \<rparr>) noon
        ''duplicate'' (sig_id signal_1)
       = (Success (), db_ann\<lparr> trading_signals := [signal_1] \<rparr>)
   \<and> trackSignalView (db_ann\<lparr> trading_signals := [signal_1] \<rparr>) (noon + 1)
        ''duplicate'' (sig_id signal_1)
       = (Success (), db_ann\<lparr> trading_signals := [signal_1] \<rparr>)"
  by (simp add: trackSignalView_def post_user_signal_access_def uuid_in_other_forms
      db_ann_def empty_db_def)

text \<open>
  C10, as the code has it. \<open>trackSignalView\<close> is idempotent at its interface: an
  insert error whose message contains \<open>duplicate\<close> is swallowed. In a table that
  satisfies \<open>UNIQUE(user_id, signal_id)\<close>, after a call that answered
  \<open>success: true\<close> a second call with the same pair answers \<open>success: true\<close> again
  and changes nothing; and when both identifiers read as uuids, the second call
  violates the constraint and the table holds exactly one row for the pair.
\<close>

theorem trackSignalView_idempotent:
  assumes uq: "distinct (map (\<lambda>a. (a_user_id a, a_signal_id a)) (user_signal_access d))"
      and first: "trackSignalView d t1 uid sid = (Success (), d1)"
  shows "trackSignalView d1 t2 uid sid = (Success (), d1)
         \<and> (uuid_in uid = Some u \<longrightarrow> uuid_in sid = Some s \<longrightarrow>
              fst (insert_user_signal_access d1
                     \<lparr> a_user_id = u, a_signal_id = s, a_viewed_at = Some t2 \<rparr>)
                = Some (UniqueViolation ''user_signal_access_user_id_signal_id_key'')
              \<and> length (filter (\<lambda>a. a_user_id a = u \<and> a_signal_id a = s)
                          (user_signal_access d1)) = 1)"
proof (cases "uuid_in uid = None \<or> uuid_in sid = None")
  case True
  then obtain message where
    m: "\<And>d' now'. trackSignalView d' now' uid sid =
          (if str_includes message ''duplicate'' then Success () else Failure message, d')"
    using trackSignalView_unread[of uid sid d t1] by blast
  have "str_includes message ''duplicate''" "d1 = d"
    using first m[of d t1] by (simp_all split: if_splits)
  then show ?thesis using True m[of d1 t2] by auto
next
  case False
  then obtain u' s' where valid: "uuid_in uid = Some u'" "uuid_in sid = Some s'" by auto
  note cases = trackSignalView_cases[OF valid]
  have "trackSignalView d1 t2 uid sid = (Success (), d1)
        \<and> fst (insert_user_signal_access d1
                 \<lparr> a_user_id = u', a_signal_id = s', a_viewed_at = Some t2 \<rparr>)
            = Some (UniqueViolation ''user_signal_access_user_id_signal_id_key'')
        \<and> length (filter (\<lambda>a. a_user_id a = u' \<and> a_signal_id a = s')
                      (user_signal_access d1)) = 1"
  proof (cases "(u', s') \<in> (\<lambda>a. (a_user_id a, a_signal_id a)) ` set (user_signal_access d)")
    case True
    then have d1: "d1 = d" using first by (simp add: cases)
    have "length (filter (\<lambda>a. (a_user_id a, a_signal_id a) = (u', s'))
                    (user_signal_access d)) = 1"
      using count_key_one[OF uq True] .
    then show ?thesis using True d1 by (simp add: cases insert_user_signal_access_def)
  next
    case False
    then have d1: "d1 = d\<lparr>user_signal_access := user_signal_access d @
                     [\<lparr> a_user_id = u', a_signal_id = s', a_viewed_at = Some t1 \<rparr>]\<rparr>"
      using first by (simp add: cases split: if_splits)
    have "filter (\<lambda>a. (a_user_id a, a_signal_id a) = (u', s')) (user_signal_access d) = []"
      using filter_key_none[OF False] .
    then have "length (filter (\<lambda>a. a_user_id a = u' \<and> a_signal_id a = s')
                        (user_signal_access d1)) = 1"
      using d1 by simp
    moreover have "trackSignalView d1 t2 uid sid = (Success (), d1)"
      unfolding d1 by (simp add: cases)
    moreover have "fst (insert_user_signal_access d1
                 \<lparr> a_user_id = u', a_signal_id = s', a_viewed_at = Some t2 \<rparr>)
            = Some (UniqueViolation ''user_signal_access_user_id_signal_id_key'')"
      unfolding d1 by (simp add: insert_user_signal_access_def)
    ultimately show ?thesis by simp
  qed
  then show ?thesis using valid by auto
qed

text \<open>Ann views a signal twice: one row, two successes.\<close>

theorem trackSignalView_idempotent_witness:
  "distinct (map (\<lambda>a. (a_user_id a, a_signal_id a))
               (user_signal_access (db_ann\<lparr> trading_signals := [signal_1] \<rparr>)))
   \<and> trackSignalView (db_ann\<lparr> trading_signals := [signal_1] \<rparr>) noon ann_id (sig_id signal_1)
       = (Success (),
          db_ann\<lparr> trading_signals := [signal_1],
                  user_signal_access :=
                    [\<lparr> a_user_id = ann_id, a_signal_id = sig_id signal_1,
                       a_viewed_at = Some noon \<rparr>] \<rparr>)
   \<and> trackSignalView
         (db_ann\<lparr> trading_signals := [signal_1],
                  user_signal_access :=
                    [\<lparr> a_user_id = ann_id, a_signal_id = sig_id signal_1,
                       a_viewed_at = Some noon \<rparr>] \<rparr>)
         (noon + 1) ann_id (sig_id signal_1)
       = (Success (),
          db_ann\<lparr> trading_signals := [signal_1],
                  user_signal_access :=
                    [\<lparr> a_user_id = ann_id, a_signal_id = sig_id signal_1,
                       a_viewed_at = Some noon \<rparr>] \<rparr>)
   \<and> uuid_in ann_id = Some ann_id
   \<and> uuid_in (sig_id signal_1) = Some (sig_id signal_1)
   \<and> length (filter (\<lambda>a. a_user_id a = ann_id \<and> a_signal_id a = sig_id signal_1)
         (user_signal_access
            (db_ann\<lparr> trading_signals := [signal_1],
                     user_signal_access :=
                       [\<lparr> a_user_id = ann_id, a_signal_id = sig_id signal_1,
                          a_viewed_at = Some noon \<rparr>] \<rparr>))) = 1"
  using trackSignalView_idempotent
      [where d = "db_ann\<lparr> trading_signals := [signal_1] \<rparr>" and ?t1.0 = noon
         and uid = ann_id and sid = "sig_id signal_1"
         and u = ann_id and s = "sig_id signal_1"
         and ?d1.0 = "db_ann\<lparr> trading_signals := [signal_1],
                  user_signal_access :=
                    [\<lparr> a_user_id = ann_id, a_signal_id = sig_id signal_1,
                       a_viewed_at = Some noon \<rparr>] \<rparr>"
         and ?t2.0 = "noon + 1"]
  by (simp add: trackSignalView_cases [OF uuid_in_ann_id uuid_in_signal_1]
      uuid_in_ann_id uuid_in_signal_1 db_ann_def empty_db_def ann_def)

section \<open>Sign-in\<close>





section \<open>Purchases\<close>

text \<open>
  C5. For a row \<open>p\<close> inserted into \<open>purchases\<close> whose \<open>user_id\<close> is the \<open>id\<close> of a
  \<open>users\<close> row \<open>u\<close> (\<open>id\<close> being the primary key), \<open>notify_admin_on_purchase\<close> inserts
  exactly one \<open>admin_notifications\<close> row, and that row is what an insert of \<open>p\<close>
  adds to the table: its type is \<open>purchase\<close>, it refers to the user and to the
  purchase, and its metadata hold the email and the first and last name of \<open>u\<close> and
  the plan name, the amount and the payment method of \<open>p\<close>.
\<close>

theorem notify_admin_on_purchase_copies:
  assumes "distinct (map u_id (users d))" and "u \<in> set (users d)" and "u_id u = p_user_id p"
  shows "\<exists>n. admin_notifications (notify_admin_on_purchase d p) = admin_notifications d @ [n]
           \<and> (\<forall>p' d'. insert_purchases d p = (Inr p', d') \<longrightarrow>
                  admin_notifications d' = admin_notifications d @ [n])
           \<and> n_notification_type n = Purchase
           \<and> n_related_user_id n = Some (p_user_id p)
           \<and> n_related_purchase_id n = Some (p_id p)
           \<and> map_of (n_metadata n) ''user_email'' = Some (JString (u_email u))
           \<and> map_of (n_metadata n) ''user_name''
                = Some (JString (u_first_name u @ '' '' @ u_last_name u))
           \<and> map_of (n_metadata n) ''plan_name'' = Some (JString (p_plan_name p))
           \<and> map_of (n_metadata n) ''amount'' = Some (JNumber (p_amount p))
           \<and> map_of (n_metadata n) ''payment_method''
                = Some (JString (payment_method_text (p_payment_method p)))"
proof -
  have "filter (\<lambda>x. u_id x = p_user_id p) (users d) = [u]"
    using filter_key_unique[of u_id "users d" u] assms by simp
  then have one: "admin_notifications (notify_admin_on_purchase d p)
               = admin_notifications d @ [purchase_notification p u]"
    by (simp add: notify_admin_on_purchase_def)
  have "\<forall>p' d'. insert_purchases d p = (Inr p', d') \<longrightarrow>
          admin_notifications d' = admin_notifications d @ [purchase_notification p u]"
    using one insert_purchases_runs_trigger by metis
  then show ?thesis using one by (simp add: purchase_notification_def)
qed

text \<open>The notification for Ann's purchase of the Pro plan.\<close>

theorem notify_admin_on_purchase_copies_witness:
  "distinct (map u_id (users db_ann)) \<and> ann \<in> set (users db_ann)
   \<and> u_id ann = p_user_id ann_purchase
   \<and> (\<exists>n. admin_notifications (notify_admin_on_purchase db_ann ann_purchase) = [n]
          \<and> n_notification_type n = Purchase
          \<and> n_related_user_id n = Some ann_id
          \<and> n_related_purchase_id n = Some purchase_id
          \<and> map_of (n_metadata n) ''user_email'' = Some (JString ''ann@example.com'')
          \<and> map_of (n_metadata n) ''user_name'' = Some (JString ''Ann Lee'')
          \<and> map_of (n_metadata n) ''plan_name'' = Some (JString ''Pro'')
          \<and> map_of (n_metadata n) ''amount'' = Some (JNumber 199)
          \<and> map_of (n_metadata n) ''payment_method'' = Some (JString ''stripe''))"
  using notify_admin_on_purchase_copies[of db_ann ann ann_purchase]
  by (auto simp add: db_ann_def empty_db_def ann_def ann_purchase_def)

lemma createPurchase_failure:
  assumes "createPurchase d new_id now data = (Failure e, d1)"
  shows "d1 = d"
proof (cases "uuid_in (userId data)")
  case None
  then show ?thesis using assms by (simp add: createPurchase_def)
next
  case (Some u)
  obtain r d' where i: "insert_purchases d
             \<lparr> p_id = new_id, p_user_id = u, p_plan_type = planType data,
               p_plan_name = planName data, p_amount = amount data,
               p_currency = ''USD'', p_payment_method = paymentMethod data,
               p_payment_status = Completed, p_transaction_id = transactionId data,
               p_payment_details = paymentDetails data,
               p_completed_at = Some now \<rparr> = (r, d')" by fastforce
  show ?thesis
  proof (cases r)
    case (Inl err)
    then have "d' = d" using i insert_purchases_refused by blast
    then show ?thesis using assms i Inl Some by (simp add: createPurchase_def)
  next
    case (Inr p)
    then show ?thesis using assms i Some by (simp add: createPurchase_def)
  qed
qed

lemma createPurchase_success:
  assumes "createPurchase d new_id now data = (Success p, d1)"
  shows "purchases d1 = purchases d @ [p]"
proof (cases "uuid_in (userId data)")
  case None
  then show ?thesis using assms by (simp add: createPurchase_def)
next
  case (Some u)
  obtain r d' where i: "insert_purchases d
             \<lparr> p_id = new_id, p_user_id = u, p_plan_type = planType data,
               p_plan_name = planName data, p_amount = amount data,
               p_currency = ''USD'', p_payment_method = paymentMethod data,
               p_payment_status = Completed, p_transaction_id = transactionId data,
               p_payment_details = paymentDetails data,
               p_completed_at = Some now \<rparr> = (r, d')" by fastforce
  show ?thesis
  proof (cases r)
    case (Inl err)
    then show ?thesis using assms i Some by (simp add: createPurchase_def)
  next
    case (Inr q)
    then have "q = p" "d' = d1" using assms i Some by (simp_all add: createPurchase_def)
    moreover have "purchases d' = purchases d @ [q]"
      using insert_purchases_done i Inr by blast
    ultimately show ?thesis by simp
  qed
qed

text \<open>
  C2 as stated fails where the email service throws: \<open>createPurchase\<close> succeeded, and
  \<open>processPurchaseAndNotify\<close> answers \<open>success: false\<close> with the message thrown.
\<close>

theorem processPurchaseAndNotify_email_counterexample:
  "fst (createPurchase db_ann purchase_id noon ann_buys) = Success ann_purchase
   \<and> fst (processPurchaseAndNotify email_down db_ann utc_zone purchase_id noon noon (noon + 1)
             ann_buys)
       = Failure ''connect ECONNREFUSED''"
  by (simp add: processPurchaseAndNotify_def createPurchase_def insert_purchases_def
      notify_admin_on_purchase_def activateSubscription_def update_user_subscriptions_def
      uuid_in_samples Let_def sample_defs)

text \<open>
  C2, as the code has it. \<open>processPurchaseAndNotify\<close> runs \<open>createPurchase\<close>, then
  \<open>activateSubscription\<close> on the database the purchase left, then the email service
  on the database the activation left. When \<open>createPurchase\<close> fails, that failure is
  the answer, the database is untouched, and neither the activation nor the email
  service has run. When \<open>createPurchase\<close> succeeds and the email service returns, the
  answer is \<open>success: true\<close> with the purchase row created; when the email service
  throws, the \<open>catch\<close> answers \<open>success: false\<close> with the message thrown.
\<close>

theorem processPurchaseAndNotify_steps:
  "(createPurchase d new_id now data = (Failure e, d1) \<longrightarrow>
      d1 = d \<and> processPurchaseAndNotify send d z new_id now c1 c2 data = (Failure e, d))
   \<and> (createPurchase d new_id now data = (Success p, d1) \<longrightarrow>
        purchases d1 = purchases d @ [p]
        \<and> (send (payment_success_email data)
                 (snd (activateSubscription d1 z c1 c2 (userId data) (planType data)))
               = (None, d3) \<longrightarrow>
             processPurchaseAndNotify send d z new_id now c1 c2 data = (Success p, d3))
        \<and> (send (payment_success_email data)
                 (snd (activateSubscription d1 z c1 c2 (userId data) (planType data)))
               = (Some thrown, d3) \<longrightarrow>
             processPurchaseAndNotify send d z new_id now c1 c2 data = (Failure thrown, d3)))"
proof (intro conjI impI)
  assume f: "createPurchase d new_id now data = (Failure e, d1)"
  show "d1 = d" using createPurchase_failure[OF f] .
  show "processPurchaseAndNotify send d z new_id now c1 c2 data = (Failure e, d)"
    using f createPurchase_failure[OF f] by (simp add: processPurchaseAndNotify_def)
next
  assume s: "createPurchase d new_id now data = (Success p, d1)"
  show "purchases d1 = purchases d @ [p]" using createPurchase_success[OF s] .
  obtain a d2 where
    act: "activateSubscription d1 z c1 c2 (userId data) (planType data) = (a, d2)"
    by fastforce
  { assume "send (payment_success_email data)
                 (snd (activateSubscription d1 z c1 c2 (userId data) (planType data)))
               = (None, d3)"
    then show "processPurchaseAndNotify send d z new_id now c1 c2 data = (Success p, d3)"
      using s act by (simp add: processPurchaseAndNotify_def payment_success_email_def) }
  { assume "send (payment_success_email data)
                 (snd (activateSubscription d1 z c1 c2 (userId data) (planType data)))
               = (Some thrown, d3)"
    then show "processPurchaseAndNotify send d z new_id now c1 c2 data = (Failure thrown, d3)"
      using s act by (simp add: processPurchaseAndNotify_def payment_success_email_def) }
qed

text \<open>
  Ann's purchase with an email service that returns, and the same purchase on a
  database without Ann, where the foreign key refuses the insert.
\<close>

theorem processPurchaseAndNotify_steps_witness:
  "createPurchase db_ann purchase_id noon ann_buys
     = (Success ann_purchase, snd (createPurchase db_ann purchase_id noon ann_buys))
   \<and> purchases (snd (createPurchase db_ann purchase_id noon ann_buys)) = [ann_purchase]
   \<and> email_up (payment_success_email ann_buys)
        (snd (activateSubscription (snd (createPurchase db_ann purchase_id noon ann_buys))
                utc_zone noon (noon + 1) ann_id ''pro''))
       = (None, snd (activateSubscription
                       (snd (createPurchase db_ann purchase_id noon ann_buys))
                       utc_zone noon (noon + 1) ann_id ''pro''))
   \<and> processPurchaseAndNotify email_up db_ann utc_zone purchase_id noon noon (noon + 1)
        ann_buys
       = (Success ann_purchase,
          snd (activateSubscription (snd (createPurchase db_ann purchase_id noon ann_buys))
                 utc_zone noon (noon + 1) ann_id ''pro''))
   \<and> createPurchase empty_db purchase_id noon ann_buys
       = (Failure (message_of (ForeignKeyViolation ''purchases'' ''purchases_user_id_fkey'')),
          empty_db)
   \<and> processPurchaseAndNotify email_up empty_db utc_zone purchase_id noon noon (noon + 1)
        ann_buys
       = (Failure (message_of (ForeignKeyViolation ''purchases'' ''purchases_user_id_fkey'')),
          empty_db)"
  using processPurchaseAndNotify_steps
      [where d = db_ann and new_id = purchase_id and now = noon and data = ann_buys
         and p = ann_purchase and ?d1.0 = "snd (createPurchase db_ann purchase_id noon ann_buys)"
         and send = email_up and z = utc_zone and ?c1.0 = noon and ?c2.0 = "noon + 1"
         and ?d3.0 = "snd (activateSubscription
                       (snd (createPurchase db_ann purchase_id noon ann_buys))
                       utc_zone noon (noon + 1) ann_id ''pro'')"]
    processPurchaseAndNotify_steps
      [where d = empty_db and new_id = purchase_id and now = noon and data = ann_buys
         and e = "message_of (ForeignKeyViolation ''purchases'' ''purchases_user_id_fkey'')"
         and ?d1.0 = empty_db and send = email_up and z = utc_zone
         and ?c1.0 = noon and ?c2.0 = "noon + 1"]
  by (simp add: createPurchase_def insert_purchases_def notify_admin_on_purchase_def
      uuid_in_ann_id
      ann_buys_def ann_purchase_def db_ann_def ann_def empty_db_def email_up_def)

end
